theory Spec2Isabelle
  imports Main "HOL-Library.Word"
begin

section \<open>The CSV to Kafka loader (scripts/load_csv_to_kafka.py)\<close>

text \<open>
  The script reads a CSV file into a pandas DataFrame (\<open>load_csv\<close>), sends every row as
  a JSON message to a Kafka topic (\<open>send_to_kafka\<close>) and exits with 0 or 1 (\<open>main\<close>).
  pandas, json and confluent_kafka are libraries, not code of the script: the file system,
  the CSV parser and the broker client are a parameter of the model (the record
  \<open>world\<close>), and the json encoder and UTF-8 are written out as the standard library
  defines them for the values a DataFrame row holds, with the errors they raise.
\<close>

subsection \<open>Python values\<close>

text \<open>
  A Python \<open>str\<close> is a sequence of Unicode code points, \<open>bytes\<close> a sequence of octets.
  \<open>ascii\<close> reads a literal of the theory as a \<open>str\<close>.
\<close>

type_synonym pystr = "nat list"
type_synonym bytes = "8 word list"

definition ascii :: "string \<Rightarrow> pystr" where
  "ascii s = map of_char s"

text \<open>The exceptions the script's code paths can meet; messages are not modelled.\<close>

datatype py_exception =
  FileNotFoundError | PermissionError | OSError | ValueError | TypeError
  | UnicodeEncodeError | BufferError | KafkaException | OtherException

text \<open>
  A float is kept as what the json encoder distinguishes: not-a-number, the two infinities,
  and a finite value, which carries the text \<open>float.__repr__\<close> gives for it, a sequence of
  ASCII characters (the arithmetic of floats plays no part in the script).
\<close>

datatype pyfloat = NaN | PosInf | NegInf | Finite "7 word list"

text \<open>
  The value of a cell of a row. \<open>PyObject\<close> is a value of a type the json encoder
  does not know (a Timestamp, a Decimal, a numpy scalar); it carries the text \<open>str\<close> gives
  for it. Cells that are lists or dicts are left out: a CSV cell is never one.
\<close>

datatype pyval =
  PyNone | PyBool bool | PyInt int | PyFloat pyfloat | PyStr pystr | PyObject pystr

text \<open>
  A column label is a string, or a tuple of strings (the columns of a MultiIndex); other
  label types are left out. A row is a Series: column labels with their values, in column
  order (a DataFrame may repeat a column label). An index label is an integer or a string;
  other label types are left out. A DataFrame is the list of its labelled rows.
\<close>

datatype column = CStr pystr | CTuple "pystr list"

type_synonym series = "(column \<times> pyval) list"

datatype label = LInt int | LStr pystr

type_synonym dataframe = "(label \<times> series) list"

text \<open>The default index of a DataFrame: the rows labelled 0, 1, 2, ...\<close>

definition range_index :: "series list \<Rightarrow> dataframe" where
  "range_index rows = zip (map (\<lambda>n. LInt (int n)) [0..<length rows]) rows"

subsection \<open>\<open>row.to_dict()\<close>\<close>

text \<open>
  \<open>Series.to_dict\<close> builds a dict from the (label, value) pairs in order. Storing under a
  key that is present replaces the value and keeps the key's place, so of a repeated
  column label the last value stays, at the first position.
\<close>

fun dict_set :: "column \<Rightarrow> pyval \<Rightarrow> series \<Rightarrow> series" where
  "dict_set k v [] = [(k, v)]"
| "dict_set k v ((k', v') # d) =
     (if k = k' then (k, v) # d else (k', v') # dict_set k v d)"

definition to_dict :: "series \<Rightarrow> series" where
  "to_dict row = foldl (\<lambda>d (k, v). dict_set k v d) [] row"

subsection \<open>\<open>json.dumps(row_dict, default=str)\<close>\<close>

text \<open>
  The encoder with its defaults: \<open>ensure_ascii=True\<close>, \<open>allow_nan=True\<close>, separators
  \<open>", "\<close> and \<open>": "\<close>, keys in dict order. It raises in two cases a row can meet:
  \<open>TypeError\<close> for a key that is a tuple, and \<open>ValueError\<close> for an integer with more
  decimal digits than the interpreter converts to text. That limit is the first argument
  \<open>m\<close> of the functions below (\<open>sys.get_int_max_str_digits()\<close>: 4300 by default, 0 for no
  limit, and never set between 1 and 639).
\<close>

definition hex_digit :: "nat \<Rightarrow> nat" where
  "hex_digit d = (if d < 10 then 48 + d else 87 + d)"

definition u_escape :: "nat \<Rightarrow> pystr" where
  "u_escape n =
     [92, 117, hex_digit (n div 4096 mod 16), hex_digit (n div 256 mod 16),
      hex_digit (n div 16 mod 16), hex_digit (n mod 16)]"

text \<open>
  \<open>py_encode_basestring_ascii\<close>: backslash, the double quote and every character outside
  space .. tilde are escaped; a code point beyond the basic plane becomes a surrogate pair.
\<close>

definition escape_char :: "nat \<Rightarrow> pystr" where
  "escape_char c =
     (if c = 92 then [92, 92]
      else if c = 34 then [92, 34]
      else if c = 8 then [92, 98]
      else if c = 12 then [92, 102]
      else if c = 10 then [92, 110]
      else if c = 13 then [92, 114]
      else if c = 9 then [92, 116]
      else if 32 \<le> c \<and> c \<le> 126 then [c]
      else if c < 65536 then u_escape c
      else (let n = c - 65536 in
            u_escape (55296 + n div 1024 mod 1024) @ u_escape (56320 + n mod 1024)))"

definition json_string :: "pystr \<Rightarrow> pystr" where
  "json_string s = [34] @ concat (map escape_char s) @ [34]"

fun digits :: "nat \<Rightarrow> pystr" where
  "digits n = (if n < 10 then [48 + n] else digits (n div 10) @ [48 + n mod 10])"

declare digits.simps [simp del]

text \<open>
  \<open>int.__repr__\<close>: the conversion checks the limit only for texts of more than 640
  characters, the sign counted; the digits are counted without the sign.
\<close>

definition exceeds_limit :: "nat \<Rightarrow> int \<Rightarrow> bool" where
  "exceeds_limit m i =
     (let n = length (digits (nat \<bar>i\<bar>));
          strlen = (if i < 0 then 1 else 0) + n
      in 640 < strlen \<and> 0 < m \<and> m < n)"

definition int_repr :: "nat \<Rightarrow> int \<Rightarrow> py_exception + pystr" where
  "int_repr m i =
     (if exceeds_limit m i then Inl ValueError
      else Inr (if i < 0 then [45] @ digits (nat (- i)) else digits (nat i)))"

fun floatstr :: "pyfloat \<Rightarrow> pystr" where
  "floatstr NaN = ascii ''NaN''"
| "floatstr PosInf = ascii ''Infinity''"
| "floatstr NegInf = ascii ''-Infinity''"
| "floatstr (Finite r) = map unat r"

text \<open>
  A value of an unknown type goes to \<open>default\<close>, here \<open>str\<close>, and the \<open>str\<close> it returns is
  encoded as a JSON string: with \<open>default=str\<close> no value is refused for its type.
\<close>

fun json_value :: "nat \<Rightarrow> pyval \<Rightarrow> py_exception + pystr" where
  "json_value m PyNone = Inr (ascii ''null'')"
| "json_value m (PyBool b) = Inr (if b then ascii ''true'' else ascii ''false'')"
| "json_value m (PyInt i) = int_repr m i"
| "json_value m (PyFloat f) = Inr (floatstr f)"
| "json_value m (PyStr s) = Inr (json_string s)"
| "json_value m (PyObject s) = Inr (json_string s)"

text \<open>A key: \<open>default\<close> is not asked for keys, and a tuple is refused.\<close>

fun json_key :: "column \<Rightarrow> py_exception + pystr" where
  "json_key (CStr s) = Inr (json_string s)"
| "json_key (CTuple ss) = Inl TypeError"

text \<open>The items are encoded in order, the key before the value; the first error ends it.\<close>

definition json_item :: "nat \<Rightarrow> column \<times> pyval \<Rightarrow> py_exception + pystr" where
  "json_item m kv =
     (case json_key (fst kv) of
        Inl e \<Rightarrow> Inl e
      | Inr k \<Rightarrow>
          (case json_value m (snd kv) of
             Inl e \<Rightarrow> Inl e
           | Inr v \<Rightarrow> Inr (k @ ascii '': '' @ v)))"

fun json_items :: "nat \<Rightarrow> series \<Rightarrow> py_exception + pystr list" where
  "json_items m [] = Inr []"
| "json_items m (kv # d) =
     (case json_item m kv of
        Inl e \<Rightarrow> Inl e
      | Inr x \<Rightarrow> (case json_items m d of Inl e \<Rightarrow> Inl e | Inr xs \<Rightarrow> Inr (x # xs)))"

fun join :: "pystr \<Rightarrow> pystr list \<Rightarrow> pystr" where
  "join sep [] = []"
| "join sep [x] = x"
| "join sep (x # y # ys) = x @ sep @ join sep (y # ys)"

definition json_dumps :: "nat \<Rightarrow> series \<Rightarrow> py_exception + pystr" where
  "json_dumps m d =
     (case json_items m d of
        Inl e \<Rightarrow> Inl e
      | Inr xs \<Rightarrow> Inr (ascii ''{'' @ join (ascii '', '') xs @ ascii ''}''))"

subsection \<open>\<open>message_value.encode('utf-8')\<close>\<close>

text \<open>UTF-8 of one code point; a surrogate cannot be encoded and raises.\<close>

definition utf8_char :: "nat \<Rightarrow> py_exception + bytes" where
  "utf8_char c =
     (if c < 128 then Inr [of_nat c]
      else if c < 2048 then Inr [of_nat (192 + c div 64), of_nat (128 + c mod 64)]
      else if 55296 \<le> c \<and> c \<le> 57343 then Inl UnicodeEncodeError
      else if c < 65536 then
        Inr [of_nat (224 + c div 4096), of_nat (128 + c div 64 mod 64), of_nat (128 + c mod 64)]
      else
        Inr [of_nat (240 + c div 262144), of_nat (128 + c div 4096 mod 64),
             of_nat (128 + c div 64 mod 64), of_nat (128 + c mod 64)])"

fun utf8_encode :: "pystr \<Rightarrow> py_exception + bytes" where
  "utf8_encode [] = Inr []"
| "utf8_encode (c # cs) =
     (case utf8_char c of
        Inl e \<Rightarrow> Inl e
      | Inr bs \<Rightarrow> (case utf8_encode cs of Inl e \<Rightarrow> Inl e | Inr rest \<Rightarrow> Inr (bs @ rest)))"

subsection \<open>The world outside the script\<close>

text \<open>
  What the libraries answer is given from outside:
  \<^item> \<open>os_stat\<close>: what \<open>os.stat\<close> finds at a path: a file (\<open>Present\<close>); no such file
    (\<open>Absent\<close>); a name longer than the file system allows, so no such file either
    (\<open>NameTooLong\<close>); a directory on the way that may not be searched (\<open>AccessDenied\<close>);
  \<^item> \<open>read_csv\<close>: what \<open>pd.read_csv(file_path)\<close> gives for the file at a path, the
    DataFrame it parses or the exception it raises. For a file whose data rows have as
    many fields as its header the rows are labelled 0, 1, 2, ... (\<open>range_index\<close>); for a
    file whose data rows have one field more than its header, pandas takes the first
    column as the index labels;
  \<^item> \<open>new_producer\<close>: whether \<open>Producer(config)\<close> raises for the given bootstrap servers;
  \<^item> \<open>produce_raises\<close>: whether the call number \<open>k\<close> of \<open>produce\<close> (counted from 0) raises
    (\<open>BufferError\<close> when the local queue is full, \<open>KafkaException\<close> otherwise) instead of
    accepting the message;
  \<^item> \<open>poll_ready\<close>: how many delivery reports the call number \<open>n\<close> of \<open>poll(0)\<close> finds ready;
  \<^item> \<open>delivery\<close>: the delivery report of the message accepted by call \<open>k\<close> of \<open>produce\<close>:
    \<open>None\<close> when the broker acknowledged it, the error otherwise;
  \<^item> \<open>max_str_digits\<close>: the interpreter's limit on the digits of an integer converted to
    text.
  \<open>poll\<close> and \<open>flush\<close> raise only what a callback they serve raises, as confluent_kafka
  documents them.
\<close>

datatype stat_outcome = Present | Absent | NameTooLong | AccessDenied

record world =
  os_stat :: "pystr \<Rightarrow> stat_outcome"
  read_csv :: "pystr \<Rightarrow> py_exception + dataframe"
  new_producer :: "pystr \<Rightarrow> py_exception option"
  produce_raises :: "nat \<Rightarrow> py_exception option"
  poll_ready :: "nat \<Rightarrow> nat"
  delivery :: "nat \<Rightarrow> pystr option"
  max_str_digits :: nat

text \<open>
  The calls made on the producer, in order (a call of \<open>produce\<close> that raises is a call
  made), and the calls made on the file system.
\<close>

datatype event = Produce pystr bytes | Poll | Flush

datatype fs_call = Exists pystr | ReadCsv pystr

text \<open>
  The state of a run of \<open>send_to_kafka\<close>: its local variables \<open>total_rows\<close>, \<open>successful\<close>
  and \<open>failed\<close>, the DataFrame object it was given (\<open>frame\<close>), and the producer: the
  number of calls of \<open>produce\<close> and \<open>poll\<close> so far, the accepted messages whose delivery
  report has not been served (\<open>outq\<close>, each with the number of its \<open>produce\<close> call), the
  delivery reports handed to the callback so far (\<open>reported\<close>) and the calls made (\<open>trace\<close>).
\<close>

record state =
  total_rows :: int
  successful :: int
  failed :: int
  frame :: dataframe
  produce_calls :: nat
  poll_calls :: nat
  outq :: "(nat \<times> bytes) list"
  reported :: "(pystr option \<times> bytes) list"
  trace :: "event list"

subsection \<open>The producer\<close>

text \<open>
  The callback the script passes to every \<open>produce\<close>: \<open>lambda err, msg: None\<close>. It runs
  inside \<open>poll\<close> and \<open>flush\<close>, in the state of the run, and returns a value and the state it
  leaves.
\<close>

definition ack_callback :: "pystr option \<Rightarrow> bytes \<Rightarrow> state \<Rightarrow> pyval \<times> state" where
  "ack_callback err msg s = (PyNone, s)"

text \<open>Serving delivery reports: each is handed to the callback; what it returns is dropped.\<close>

fun serve :: "world \<Rightarrow> (nat \<times> bytes) list \<Rightarrow> state \<Rightarrow> state" where
  "serve w [] s = s"
| "serve w ((k, msg) # ms) s =
     serve w ms
       (snd (ack_callback (delivery w k) msg
          (s\<lparr>reported := reported s @ [(delivery w k, msg)]\<rparr>)))"

definition poll :: "world \<Rightarrow> state \<Rightarrow> state" where
  "poll w s =
     (let n = poll_ready w (poll_calls s) in
      serve w (take n (outq s))
        (s\<lparr>poll_calls := poll_calls s + 1, outq := drop n (outq s),
           trace := trace s @ [Poll]\<rparr>))"

text \<open>\<open>flush()\<close> without a timeout waits until every outstanding message is reported.\<close>

definition flush :: "world \<Rightarrow> state \<Rightarrow> state" where
  "flush w s = serve w (outq s) (s\<lparr>outq := [], trace := trace s @ [Flush]\<rparr>)"

definition produce :: "world \<Rightarrow> pystr \<Rightarrow> bytes \<Rightarrow> state \<Rightarrow> py_exception option \<times> state" where
  "produce w topic val s =
     (let k = produce_calls s;
          s' = s\<lparr>produce_calls := k + 1, trace := trace s @ [Produce topic val]\<rparr>
      in case produce_raises w k of
           Some e \<Rightarrow> (Some e, s')
         | None \<Rightarrow> (None, s'\<lparr>outq := outq s' @ [(k, val)]\<rparr>))"

subsection \<open>\<open>send_to_kafka\<close>\<close>

text \<open>\<open>idx + 1\<close>: an integer label is incremented, a string label raises \<open>TypeError\<close>.\<close>

fun idx_plus_1 :: "label \<Rightarrow> py_exception + int" where
  "idx_plus_1 (LInt i) = Inr (i + 1)"
| "idx_plus_1 (LStr s) = Inl TypeError"

text \<open>
  The bytes handed to \<open>produce\<close> for a row (lines 87, 88 and 92), or the exception that
  \<open>json.dumps\<close> or \<open>encode\<close> raises.
\<close>

definition message_bytes :: "nat \<Rightarrow> series \<Rightarrow> py_exception + bytes" where
  "message_bytes m row =
     (case json_dumps m (to_dict row) of
        Inl e \<Rightarrow> Inl e
      | Inr message_value \<Rightarrow> utf8_encode message_value)"

text \<open>
  The body of the \<open>try\<close> for one row: the exception it raises, if any, and the state at that
  point. What was done before the raise stays done.
\<close>

definition try_body :: "world \<Rightarrow> pystr \<Rightarrow> label \<Rightarrow> series \<Rightarrow> state \<Rightarrow> py_exception option \<times> state" where
  "try_body w topic idx row s =
     (case message_bytes (max_str_digits w) row of
        Inl e \<Rightarrow> (Some e, s)
      | Inr val \<Rightarrow>
          (case produce w topic val s of
             (Some e, s1) \<Rightarrow> (Some e, s1)
           | (None, s1) \<Rightarrow>
               (let s2 = s1\<lparr>successful := successful s1 + 1\<rparr> in
                case idx_plus_1 idx of
                  Inl e \<Rightarrow> (Some e, s2)
                | Inr i \<Rightarrow>
                    (let s3 = (if i mod 100 = 0 then poll w s2 else s2);
                         s4 = (if i mod 10000 = 0 then flush w s3 else s3)
                     in (None, s4)))))"

text \<open>One turn of the loop: the \<open>try\<close>, and the handler of \<open>except Exception\<close>.\<close>

definition row_step :: "world \<Rightarrow> pystr \<Rightarrow> label \<times> series \<Rightarrow> state \<Rightarrow> state" where
  "row_step w topic r s =
     (case try_body w topic (fst r) (snd r) s of
        (None, s') \<Rightarrow> s'
      | (Some e, s') \<Rightarrow> poll w (s'\<lparr>failed := failed s' + 1\<rparr>))"

fun send_loop :: "world \<Rightarrow> pystr \<Rightarrow> dataframe \<Rightarrow> state \<Rightarrow> state" where
  "send_loop w topic [] s = s"
| "send_loop w topic (r # rs) s = send_loop w topic rs (row_step w topic r s)"

definition init_state :: "dataframe \<Rightarrow> state" where
  "init_state df =
     \<lparr>total_rows = int (length df), successful = 0, failed = 0, frame = df,
      produce_calls = 0, poll_calls = 0, outq = [], reported = [], trace = []\<rparr>"

text \<open>
  \<open>send_to_kafka\<close> returns its boolean; the model returns with it the state the run ended
  in, or \<open>None\<close> when the function returned before it had a producer and counters.
\<close>

definition send_to_kafka :: "world \<Rightarrow> dataframe \<Rightarrow> pystr \<Rightarrow> pystr \<Rightarrow> bool \<times> state option" where
  "send_to_kafka w df topic bootstrap_servers =
     (case new_producer w bootstrap_servers of
        Some e \<Rightarrow> (False, None)
      | None \<Rightarrow>
          (let s = flush w (send_loop w topic df (init_state df))
           in if failed s > 0 then (False, Some s) else (True, Some s)))"

subsection \<open>\<open>load_csv\<close> and \<open>main\<close>\<close>

text \<open>
  \<open>Path(file_path).exists()\<close>: \<open>exists\<close> answers \<open>False\<close> when \<open>os.stat\<close> finds no such
  file, and lets every other error of \<open>os.stat\<close> through.
\<close>

definition path_exists :: "world \<Rightarrow> pystr \<Rightarrow> py_exception + bool" where
  "path_exists w p =
     (case os_stat w p of
        Present \<Rightarrow> Inr True
      | Absent \<Rightarrow> Inr False
      | NameTooLong \<Rightarrow> Inl OSError
      | AccessDenied \<Rightarrow> Inl PermissionError)"

text \<open>
  \<open>load_csv\<close> returns the DataFrame or raises; the model adds the file system calls made.
  The existence test stands outside the \<open>try\<close>: what it raises leaves \<open>load_csv\<close> as it is.
\<close>

definition load_csv :: "world \<Rightarrow> pystr \<Rightarrow> fs_call list \<times> (py_exception + dataframe)" where
  "load_csv w file_path =
     (case path_exists w file_path of
        Inl e \<Rightarrow> ([Exists file_path], Inl e)
      | Inr found \<Rightarrow>
          (if \<not> found then ([Exists file_path], Inl FileNotFoundError)
           else (case read_csv w file_path of
                   Inl e \<Rightarrow> ([Exists file_path, ReadCsv file_path], Inl ValueError)
                 | Inr df \<Rightarrow> ([Exists file_path, ReadCsv file_path], Inr df))))"

text \<open>
  A run of the script after its arguments are parsed: the exit code, the file system
  calls, and what \<open>send_to_kafka\<close> returned when it was called.
\<close>

record process =
  exit_code :: int
  fs_calls :: "fs_call list"
  sent :: "(bool \<times> state option) option"

definition main :: "world \<Rightarrow> pystr \<Rightarrow> pystr \<Rightarrow> pystr \<Rightarrow> process" where
  "main w csv_file bootstrap_servers topic =
     (case load_csv w csv_file of
        (fs, Inr df) \<Rightarrow>
          (let success = send_to_kafka w df topic bootstrap_servers
           in \<lparr>exit_code = (if fst success then 0 else 1), fs_calls = fs,
               sent = Some success\<rparr>)
      | (fs, Inl e) \<Rightarrow>
          (case e of
             FileNotFoundError \<Rightarrow> \<lparr>exit_code = 1, fs_calls = fs, sent = None\<rparr>
           | ValueError \<Rightarrow> \<lparr>exit_code = 1, fs_calls = fs, sent = None\<rparr>
           | _ \<Rightarrow> \<lparr>exit_code = 1, fs_calls = fs, sent = None\<rparr>))"

subsection \<open>Notions the properties are stated with\<close>

text \<open>A \<open>str\<close> of ASCII characters only.\<close>

definition is_ascii :: "pystr \<Rightarrow> bool" where
  "is_ascii s = list_all (\<lambda>c. c < 128) s"

text \<open>The payloads handed to \<open>produce\<close> in a sequence of producer calls, in order.\<close>

fun payload_of :: "event \<Rightarrow> bytes list" where
  "payload_of (Produce topic val) = [val]"
| "payload_of Poll = []"
| "payload_of Flush = []"

definition payloads :: "event list \<Rightarrow> bytes list" where
  "payloads tr = concat (map payload_of tr)"


text \<open>The counters the script logs: rows seen, successful, failed.\<close>

definition summary :: "state \<Rightarrow> int \<times> int \<times> int" where
  "summary s = (total_rows s, successful s, failed s)"

text \<open>A state with the record of served delivery reports left out.\<close>

definition forget :: "state \<Rightarrow> state" where
  "forget s = s\<lparr>reported := []\<rparr>"

fun is_int_label :: "label \<Rightarrow> bool" where
  "is_int_label (LInt i) = True"
| "is_int_label (LStr s) = False"

text \<open>
  The payload a row gives, if it encodes, and the payloads of the rows of a DataFrame that
  encode, in row order.
\<close>

fun encoded :: "py_exception + bytes \<Rightarrow> bytes list" where
  "encoded (Inl e) = []"
| "encoded (Inr val) = [val]"

definition row_payloads :: "nat \<Rightarrow> dataframe \<Rightarrow> bytes list" where
  "row_payloads m df = concat (map (\<lambda>r. encoded (message_bytes m (snd r))) df)"

text \<open>An item of a dict that \<open>json.dumps\<close> refuses.\<close>

fun json_refuses :: "nat \<Rightarrow> column \<times> pyval \<Rightarrow> bool" where
  "json_refuses m (CTuple ss, v) = True"
| "json_refuses m (CStr k, PyInt i) = exceeds_limit m i"
| "json_refuses m (CStr k, v) = False"

text \<open>Whether the \<open>try\<close> for a row raises in a state.\<close>

definition row_raises :: "world \<Rightarrow> pystr \<Rightarrow> label \<times> series \<Rightarrow> state \<Rightarrow> bool" where
  "row_raises w topic r s = (fst (try_body w topic (fst r) (snd r) s) \<noteq> None)"

subsection \<open>Sample inputs\<close>

text \<open>
  A world where the file \<open>tx.csv\<close> exists and holds three rows, the producer is created,
  every \<open>produce\<close> is accepted and every message is acknowledged; and variations of it.
\<close>

definition first_row :: series where
  "first_row =
     [(CStr (ascii ''id''), PyInt 1), (CStr (ascii ''amount''), PyFloat (Finite [49, 46, 53]))]"

definition second_row :: series where
  "second_row = [(CStr (ascii ''id''), PyInt 2), (CStr (ascii ''amount''), PyFloat NaN)]"

definition third_row :: series where
  "third_row = [(CStr (ascii ''id''), PyInt 3), (CStr (ascii ''amount''), PyNone)]"

definition three_rows :: "series list" where
  "three_rows = [first_row, second_row, third_row]"

definition quiet_world :: world where
  "quiet_world =
     \<lparr>os_stat = (\<lambda>p. if p = ascii ''tx.csv'' then Present else Absent),
      read_csv = (\<lambda>p. Inr (range_index three_rows)),
      new_producer = (\<lambda>b. None),
      produce_raises = (\<lambda>k. None),
      poll_ready = (\<lambda>n. 0),
      delivery = (\<lambda>k. None),
      max_str_digits = 4300\<rparr>"

text \<open>The broker reports the second message as failed.\<close>

definition nack_world :: world where
  "nack_world =
     quiet_world\<lparr>delivery := (\<lambda>k. if k = 1 then Some (ascii ''timed out'') else None)\<rparr>"

text \<open>The second call of \<open>produce\<close> raises.\<close>

definition reject_world :: world where
  "reject_world =
     quiet_world\<lparr>produce_raises := (\<lambda>k. if k = 1 then Some BufferError else None)\<rparr>"

text \<open>\<open>Producer(config)\<close> raises.\<close>

definition no_producer_world :: world where
  "no_producer_world = quiet_world\<lparr>new_producer := (\<lambda>b. Some KafkaException)\<rparr>"

text \<open>
  A one-row DataFrame indexed by a string: what \<open>pd.read_csv\<close> gives for a file with the
  two lines \<open>a\<close> and \<open>x,1\<close> (one header field, two data fields). And a row with a Timestamp
  cell.
\<close>

definition string_indexed :: dataframe where
  "string_indexed = [(LStr (ascii ''x''), [(CStr (ascii ''a''), PyInt 1)])]"

definition implicit_index_world :: world where
  "implicit_index_world = quiet_world\<lparr>read_csv := (\<lambda>p. Inr string_indexed)\<rparr>"




text \<open>
  A file name of 300 letters \<open>a\<close>, in a world where names end at 255 characters: no such
  file exists, and \<open>os.stat\<close> fails for the name.
\<close>

definition long_name :: pystr where
  "long_name = replicate 300 97"

definition long_name_world :: world where
  "long_name_world =
     quiet_world\<lparr>os_stat := (\<lambda>p. if 255 < length p then NameTooLong else Absent)\<rparr>"


section \<open>Properties\<close>

subsection \<open>The encoder\<close>

lemma is_ascii_append [simp]: "is_ascii (a @ b) = (is_ascii a \<and> is_ascii b)"
  by (simp add: is_ascii_def)

lemma is_ascii_Nil [simp]: "is_ascii []"
  by (simp add: is_ascii_def)

lemma is_ascii_Cons [simp]: "is_ascii (c # s) = (c < 128 \<and> is_ascii s)"
  by (simp add: is_ascii_def)

lemma hex_digit_ascii: "hex_digit (n mod 16) < 128"
proof -
  have "n mod 16 < 16" by simp
  then show ?thesis unfolding hex_digit_def by presburger
qed

lemma u_escape_ascii: "is_ascii (u_escape n)"
  by (simp add: u_escape_def hex_digit_ascii)

lemma escape_char_ascii: "is_ascii (escape_char c)"
  by (simp add: escape_char_def u_escape_ascii Let_def)

lemma concat_ascii: "(\<And>x. x \<in> set xs \<Longrightarrow> is_ascii x) \<Longrightarrow> is_ascii (concat xs)"
  by (induction xs) auto

lemma json_string_ascii: "is_ascii (json_string s)"
proof -
  have "is_ascii (concat (map escape_char s))"
    by (rule concat_ascii) (auto simp: escape_char_ascii)
  then show ?thesis by (simp add: json_string_def)
qed

lemma digits_ascii: "is_ascii (digits n)"
proof (induction n rule: digits.induct)
  case (1 n)
  show ?case
  proof (cases "n < 10")
    case True
    then show ?thesis by (subst digits.simps) simp
  next
    case False
    have "n mod 10 < 10" by simp
    then have "48 + n mod 10 < 128" by linarith
    with False 1 show ?thesis by (subst digits.simps) simp
  qed
qed

lemma digits_small: "n < 10 \<Longrightarrow> digits n = [48 + n]"
  by (subst digits.simps) simp



lemma exceeds_limit_single_digit: "\<bar>i\<bar> < 10 \<Longrightarrow> \<not> exceeds_limit m i"
proof -
  assume "\<bar>i\<bar> < 10"
  then have "nat \<bar>i\<bar> < 10" by linarith
  then show ?thesis by (simp add: exceeds_limit_def Let_def digits_small)
qed

lemma exceeds_limit_unlimited [simp]: "\<not> exceeds_limit 0 i"
  by (simp add: exceeds_limit_def Let_def)

lemma int_repr_ascii: "int_repr m i = Inr t \<Longrightarrow> is_ascii t"
  by (auto simp: int_repr_def digits_ascii split: if_splits)

lemma floatstr_ascii: "is_ascii (floatstr f)"
proof (cases f)
  case (Finite r)
  have "unat c < 128" for c :: "7 word"
    using unsigned_less [of c, where 'a = nat] by simp
  then show ?thesis using Finite by (simp add: is_ascii_def list_all_iff)
qed (simp_all add: ascii_def)

lemma json_value_ascii: "json_value m v = Inr t \<Longrightarrow> is_ascii t"
  by (cases v) (auto simp: ascii_def int_repr_ascii floatstr_ascii json_string_ascii)

lemma json_key_ascii: "json_key k = Inr t \<Longrightarrow> is_ascii t"
  by (cases k) (auto simp: json_string_ascii)

lemma json_item_ascii: "json_item m kv = Inr t \<Longrightarrow> is_ascii t"
  by (auto simp: json_item_def ascii_def split: sum.splits
      dest: json_key_ascii json_value_ascii)

lemma json_items_ascii: "json_items m d = Inr xs \<Longrightarrow> x \<in> set xs \<Longrightarrow> is_ascii x"
proof (induction d arbitrary: xs)
  case Nil
  then show ?case by simp
next
  case (Cons kv d)
  then show ?case
    by (auto split: sum.splits dest: json_item_ascii)
qed

lemma join_ascii:
  "is_ascii sep \<Longrightarrow> (\<And>x. x \<in> set xs \<Longrightarrow> is_ascii x) \<Longrightarrow> is_ascii (join sep xs)"
  by (induction sep xs rule: join.induct) auto

lemma json_dumps_ascii: "json_dumps m d = Inr t \<Longrightarrow> is_ascii t"
proof -
  assume dumps: "json_dumps m d = Inr t"
  then obtain xs where xs: "json_items m d = Inr xs"
    and t: "t = ascii ''{'' @ join (ascii '', '') xs @ ascii ''}''"
    by (auto simp: json_dumps_def split: sum.splits)
  have "is_ascii (join (ascii '', '') xs)"
    by (rule join_ascii) (auto simp: ascii_def json_items_ascii [OF xs])
  then show ?thesis by (simp add: t ascii_def)
qed

lemma utf8_encode_ascii: "is_ascii s \<Longrightarrow> utf8_encode s = Inr (map of_nat s)"
  by (induction s) (simp_all add: utf8_char_def)

text \<open>
  The JSON text is ASCII, which UTF-8 always encodes: a row fails to encode exactly when
  \<open>json.dumps\<close> raises.
\<close>

lemma message_bytes_eq:
  "message_bytes m row =
     (case json_dumps m (to_dict row) of Inl e \<Rightarrow> Inl e | Inr t \<Rightarrow> Inr (map of_nat t))"
  by (auto simp: message_bytes_def utf8_encode_ascii split: sum.splits dest: json_dumps_ascii)

text \<open>\<open>json.dumps\<close> raises exactly when the dict has an item it refuses.\<close>

lemma isl_json_item: "isl (json_item m kv) \<longleftrightarrow> json_refuses m kv"
proof (cases kv)
  case (Pair k v)
  show ?thesis
  proof (cases k)
    case (CStr s)
    with Pair show ?thesis
      by (cases v) (simp_all add: json_item_def int_repr_def)
  next
    case (CTuple ss)
    with Pair show ?thesis by (simp add: json_item_def)
  qed
qed

lemma isl_json_items: "isl (json_items m d) \<longleftrightarrow> list_ex (json_refuses m) d"
proof (induction d)
  case Nil
  show ?case by simp
next
  case (Cons kv d)
  then show ?case
    using isl_json_item [of m kv] by (auto split: sum.splits)
qed

lemma isl_message_bytes:
  "isl (message_bytes m row) \<longleftrightarrow> list_ex (json_refuses m) (to_dict row)"
  using isl_json_items [of m "to_dict row"]
  by (auto simp: message_bytes_eq json_dumps_def split: sum.splits)






subsection \<open>The producer calls, field by field\<close>

lemma serve_eq:
  "serve w ms s = s\<lparr>reported := reported s @ map (\<lambda>km. (delivery w (fst km), snd km)) ms\<rparr>"
  by (induction ms arbitrary: s) (auto simp: ack_callback_def)

lemma poll_eq:
  "poll w s =
     s\<lparr>poll_calls := poll_calls s + 1,
       outq := drop (poll_ready w (poll_calls s)) (outq s),
       trace := trace s @ [Poll],
       reported := reported s @
         map (\<lambda>km. (delivery w (fst km), snd km)) (take (poll_ready w (poll_calls s)) (outq s))\<rparr>"
  by (simp add: poll_def serve_eq Let_def)

lemma flush_eq:
  "flush w s =
     s\<lparr>outq := [], trace := trace s @ [Flush],
       reported := reported s @ map (\<lambda>km. (delivery w (fst km), snd km)) (outq s)\<rparr>"
  by (simp add: flush_def serve_eq)

lemma produce_eq:
  "produce w topic val s =
     (produce_raises w (produce_calls s),
      s\<lparr>produce_calls := produce_calls s + 1,
        trace := trace s @ [Produce topic val],
        outq := (if produce_raises w (produce_calls s) = None
                 then outq s @ [(produce_calls s, val)] else outq s)\<rparr>)"
  by (simp add: produce_def Let_def split: option.splits)

subsection \<open>One turn of the loop\<close>

lemmas step_defs = row_step_def try_body_def produce_eq poll_eq flush_eq Let_def

text \<open>
  The \<open>try\<close> of a row raises when the row does not encode, when \<open>produce\<close> raises, or,
  after the increment of \<open>successful\<close>, when \<open>idx + 1\<close> raises.
\<close>

lemma row_raises_iff:
  "row_raises w topic r s \<longleftrightarrow>
     isl (message_bytes (max_str_digits w) (snd r))
     \<or> produce_raises w (produce_calls s) \<noteq> None \<or> \<not> is_int_label (fst r)"
  by (cases "fst r"; cases "message_bytes (max_str_digits w) (snd r)")
     (auto simp: row_raises_def try_body_def produce_eq Let_def split: option.splits)

lemma row_step_failed:
  "failed (row_step w topic r s) = failed s + (if row_raises w topic r s then 1 else 0)"
  by (cases "fst r"; cases "message_bytes (max_str_digits w) (snd r)")
     (auto simp: row_raises_def step_defs split: option.splits)

lemma row_step_successful:
  "successful (row_step w topic r s) =
     successful s
       + (if \<not> isl (message_bytes (max_str_digits w) (snd r))
             \<and> produce_raises w (produce_calls s) = None then 1 else 0)"
  by (cases "fst r"; cases "message_bytes (max_str_digits w) (snd r)")
     (auto simp: step_defs split: option.splits)

lemma row_step_total_rows: "total_rows (row_step w topic r s) = total_rows s"
  by (cases "fst r"; cases "message_bytes (max_str_digits w) (snd r)")
     (auto simp: step_defs split: option.splits)

lemma row_step_frame: "frame (row_step w topic r s) = frame s"
  by (cases "fst r"; cases "message_bytes (max_str_digits w) (snd r)")
     (auto simp: step_defs split: option.splits)

lemma row_step_produce_calls:
  "produce_calls (row_step w topic r s) =
     produce_calls s + (if isl (message_bytes (max_str_digits w) (snd r)) then 0 else 1)"
  by (cases "fst r"; cases "message_bytes (max_str_digits w) (snd r)")
     (auto simp: step_defs split: option.splits)

lemma payloads_append [simp]: "payloads (a @ b) = payloads a @ payloads b"
  by (simp add: payloads_def)

lemma payloads_Nil [simp]: "payloads [] = []"
  by (simp add: payloads_def)

lemma payloads_Cons [simp]: "payloads (e # tr) = payload_of e @ payloads tr"
  by (simp add: payloads_def)


subsection \<open>The loop\<close>


lemma send_loop_total_rows: "total_rows (send_loop w topic df s) = total_rows s"
  by (induction df arbitrary: s) (simp_all add: row_step_total_rows)

lemma send_loop_frame: "frame (send_loop w topic df s) = frame s"
  by (induction df arbitrary: s) (simp_all add: row_step_frame)

lemma row_payloads_Nil [simp]: "row_payloads m [] = []"
  by (simp add: row_payloads_def)

lemma row_payloads_Cons [simp]:
  "row_payloads m (r # df) = encoded (message_bytes m (snd r)) @ row_payloads m df"
  by (simp add: row_payloads_def)


lemma send_loop_failed_mono: "failed s \<le> failed (send_loop w topic df s)"
proof (induction df arbitrary: s)
  case Nil
  show ?case by simp
next
  case (Cons r df)
  have "failed s \<le> failed (row_step w topic r s)"
    by (simp add: row_step_failed)
  also have "\<dots> \<le> failed (send_loop w topic df (row_step w topic r s))"
    by (rule Cons.IH)
  finally show ?case by simp
qed



text \<open>
  With integer labels a row raises only before the increment of \<open>successful\<close>: each turn
  counts its row once.
\<close>

lemma row_step_counts_once:
  "is_int_label (fst r) \<Longrightarrow>
   successful (row_step w topic r s) + failed (row_step w topic r s) =
     successful s + failed s + 1"
  by (simp add: row_step_failed row_step_successful row_raises_iff)

lemma send_loop_counts_once:
  "list_all (\<lambda>r. is_int_label (fst r)) df \<Longrightarrow>
   successful (send_loop w topic df s) + failed (send_loop w topic df s) =
     successful s + failed s + int (length df)"
proof (induction df arbitrary: s)
  case Nil
  show ?case by simp
next
  case (Cons r df)
  then have "is_int_label (fst r)" and rest: "list_all (\<lambda>r. is_int_label (fst r)) df"
    by simp_all
  then show ?case
    using Cons.IH [OF rest, of "row_step w topic r s"] row_step_counts_once [of r w topic s]
    by simp
qed

lemma range_index_int_labels: "list_all (\<lambda>r. is_int_label (fst r)) (range_index rows)"
  by (auto simp: range_index_def list_all_iff dest!: set_zip_leftD)

lemma length_range_index: "length (range_index rows) = length rows"
  by (simp add: range_index_def)

text \<open>
  For a DataFrame with integer labels (the default index among them): during the
  loop the counters add up to the number of rows handled so far, which is at most
  \<open>total_rows\<close>, and after the final flush they add up to \<open>total_rows\<close>.
\<close>

lemma counters_account_int_labels:
  assumes "list_all (\<lambda>r. is_int_label (fst r)) df" and "df = pre @ post"
  shows "successful (send_loop w topic pre (init_state df))
           + failed (send_loop w topic pre (init_state df)) = int (length pre)"
    and "int (length pre) \<le> total_rows (send_loop w topic pre (init_state df))"
    and "successful (flush w (send_loop w topic df (init_state df)))
           + failed (flush w (send_loop w topic df (init_state df)))
         = total_rows (flush w (send_loop w topic df (init_state df)))"
proof -
  from assms have pre: "list_all (\<lambda>r. is_int_label (fst r)) pre" by simp
  show "successful (send_loop w topic pre (init_state df))
           + failed (send_loop w topic pre (init_state df)) = int (length pre)"
    using send_loop_counts_once [OF pre, of w topic "init_state df"]
    by (simp add: init_state_def)
  show "int (length pre) \<le> total_rows (send_loop w topic pre (init_state df))"
    using assms(2) by (simp add: send_loop_total_rows init_state_def)
  show "successful (flush w (send_loop w topic df (init_state df)))
           + failed (flush w (send_loop w topic df (init_state df)))
         = total_rows (flush w (send_loop w topic df (init_state df)))"
    using send_loop_counts_once [OF assms(1), of w topic "init_state df"]
    by (simp add: flush_eq send_loop_total_rows init_state_def)
qed

lemma send_to_kafka_eq:
  "new_producer w b = None \<Longrightarrow>
   send_to_kafka w df topic b =
     (failed (send_loop w topic df (init_state df)) = 0,
      Some (flush w (send_loop w topic df (init_state df))))"
proof -
  assume np: "new_producer w b = None"
  have "0 \<le> failed (send_loop w topic df (init_state df))"
    using send_loop_failed_mono [of "init_state df" w topic df] by (simp add: init_state_def)
  then show ?thesis
    using np by (auto simp: send_to_kafka_def Let_def flush_eq)
qed

lemma send_to_kafka_no_producer:
  "new_producer w b = Some e \<Longrightarrow> send_to_kafka w df topic b = (False, None)"
  by (simp add: send_to_kafka_def)


subsection \<open>Delivery reports\<close>

text \<open>
  The delivery reports reach the run only through \<open>reported\<close>: two runs that differ in
  what the broker reports go through the same states otherwise.
\<close>

lemma forget_reported [simp]: "forget (s\<lparr>reported := x\<rparr>) = forget s"
  by (simp add: forget_def)

lemma row_step_forget:
  assumes "forget s' = forget s"
  shows "forget (row_step (w\<lparr>delivery := d\<rparr>) topic r s') = forget (row_step w topic r s)"
proof -
  have s': "s' = s\<lparr>reported := reported s'\<rparr>"
    using assms by (cases s; cases s') (simp add: forget_def)
  show ?thesis
    by (subst s', cases "fst r"; cases "message_bytes (max_str_digits w) (snd r)")
       (auto simp: step_defs forget_def split: option.splits)
qed

lemma send_loop_forget:
  "forget s' = forget s \<Longrightarrow>
   forget (send_loop (w\<lparr>delivery := d\<rparr>) topic df s') = forget (send_loop w topic df s)"
proof (induction df arbitrary: s s')
  case Nil
  then show ?case by simp
next
  case (Cons r df)
  have "forget (row_step (w\<lparr>delivery := d\<rparr>) topic r s') = forget (row_step w topic r s)"
    by (rule row_step_forget [OF Cons.prems])
  then show ?case
    using Cons.IH by simp
qed

lemma forget_fields:
  "failed (forget s) = failed s" "successful (forget s) = successful s"
  "total_rows (forget s) = total_rows s"
  by (simp_all add: forget_def)

subsection \<open>The sample inputs\<close>

lemma three_rows_encode:
  "\<not> isl (message_bytes m first_row)" "\<not> isl (message_bytes m second_row)"
  "\<not> isl (message_bytes m third_row)"
  by (simp_all add: isl_message_bytes first_row_def second_row_def third_row_def to_dict_def
      exceeds_limit_single_digit)

lemma single_digit_row_encodes: "\<bar>i\<bar> < 10 \<Longrightarrow> \<not> isl (message_bytes m [(CStr k, PyInt i)])"
  by (simp add: isl_message_bytes to_dict_def exceeds_limit_single_digit)


lemma not_isl_Inr: "\<not> isl x \<Longrightarrow> \<exists>val. x = Inr val"
  by (cases x) simp_all

lemma range_index_three_rows:
  "range_index three_rows = [(LInt 0, first_row), (LInt 1, second_row), (LInt 2, third_row)]"
  by (simp add: range_index_def three_rows_def upt_rec)

text \<open>A path that \<open>exists\<close> answers \<open>False\<close> for.\<close>

lemma load_csv_absent:
  "os_stat w f = Absent \<Longrightarrow> load_csv w f = ([Exists f], Inl FileNotFoundError)"
  by (simp add: load_csv_def path_exists_def)

lemma load_csv_present:
  "os_stat w f = Present \<Longrightarrow> read_csv w f = Inr df \<Longrightarrow>
   load_csv w f = ([Exists f, ReadCsv f], Inr df)"
  by (simp add: load_csv_def path_exists_def)

section \<open>The claims\<close>

subsection \<open>C1: the counters against the rows seen\<close>

text \<open>
  C1 says that after every run \<open>successful + failed\<close> equals the number of rows, each row
  counted once. \<open>successful\<close> is incremented before \<open>idx + 1\<close> is evaluated inside the same
  \<open>try\<close>; for a DataFrame indexed by strings \<open>idx + 1\<close> raises \<open>TypeError\<close>, the handler
  increments \<open>failed\<close> as well, and the row is counted twice. For the file with the lines
  \<open>a\<close> and \<open>x,1\<close> the run ends with seen 1, successful 1, failed 1, and the script exits
  with 1, although the one message was accepted and acknowledged.
  (For integer labels the claim holds: \<open>counters_account_int_labels\<close>.)
\<close>

theorem string_index_double_count:
  "\<exists>s. main implicit_index_world (ascii ''tx.csv'') (ascii ''localhost:9095'')
          (ascii ''transactions'')
          = \<lparr>exit_code = 1,
             fs_calls = [Exists (ascii ''tx.csv''), ReadCsv (ascii ''tx.csv'')],
             sent = Some (False, Some s)\<rparr>
       \<and> summary s = (1, 1, 1) \<and> successful s + failed s \<noteq> total_rows s
       \<and> map fst (reported s) = [None]"
proof -
  obtain val where enc: "message_bytes 4300 [(CStr (ascii ''a''), PyInt 1)] = Inr val"
    using not_isl_Inr [OF single_digit_row_encodes [of 1 4300 "ascii ''a''"]] by auto
  show ?thesis
    by (simp add: main_def load_csv_def path_exists_def implicit_index_world_def
        quiet_world_def string_indexed_def send_to_kafka_def init_state_def summary_def
        step_defs enc)
qed

theorem string_index_double_count_witness:
  "exit_code (main implicit_index_world (ascii ''tx.csv'') (ascii ''localhost:9095'')
      (ascii ''transactions'')) = 1"
  using string_index_double_count by auto

subsection \<open>C2: three records, the second one failing\<close>

text \<open>
  Against C2 as stated: the broker acknowledges the first and third message and reports
  the second as failed. The callback drops the report: the run ends with seen 3,
  successful 3, failed 0, and the script exits with 0.
\<close>

theorem nack_not_counted:
  "\<exists>s. main nack_world (ascii ''tx.csv'') (ascii ''localhost:9095'') (ascii ''transactions'')
          = \<lparr>exit_code = 0,
             fs_calls = [Exists (ascii ''tx.csv''), ReadCsv (ascii ''tx.csv'')],
             sent = Some (True, Some s)\<rparr>
       \<and> summary s = (3, 3, 0)
       \<and> map fst (reported s) = [None, Some (ascii ''timed out''), None]"
proof -
  obtain v1 v2 v3 where enc:
    "message_bytes 4300 first_row = Inr v1"
    "message_bytes 4300 second_row = Inr v2"
    "message_bytes 4300 third_row = Inr v3"
    using three_rows_encode [of 4300, THEN not_isl_Inr] by auto
  show ?thesis
    by (simp add: main_def load_csv_def path_exists_def range_index_three_rows
        nack_world_def quiet_world_def send_to_kafka_def init_state_def summary_def step_defs
        enc)
qed

text \<open>
  C2, amended: for a run over 3 records that encode, whose first and third \<open>produce\<close>
  call are accepted, the summary is seen 3, succeeded 2, failed 1 with exit code 1 when the
  \<open>produce\<close> call of the second record raises, and seen 3, succeeded 3, failed 0 with exit
  code 0 when it is accepted, whatever the broker reports on delivery afterwards (the
  delivery reports of \<open>w\<close> are arbitrary).
\<close>

theorem three_records_summary:
  assumes "os_stat w f = Present" and "read_csv w f = Inr (range_index [r1, r2, r3])"
    and "new_producer w b = None"
    and "\<not> isl (message_bytes (max_str_digits w) r1)"
    and "\<not> isl (message_bytes (max_str_digits w) r2)"
    and "\<not> isl (message_bytes (max_str_digits w) r3)"
    and "produce_raises w 0 = None" and "produce_raises w 2 = None"
  shows "\<exists>s. sent (main w f b t) = Some (produce_raises w 1 = None, Some s)
           \<and> summary s = (3, (if produce_raises w 1 = None then 3 else 2),
                             (if produce_raises w 1 = None then 0 else 1))
           \<and> exit_code (main w f b t) = (if produce_raises w 1 = None then 0 else 1)"
proof -
  let ?df = "range_index [r1, r2, r3]"
  have df: "?df = [(LInt 0, r1), (LInt 1, r2), (LInt 2, r3)]"
    by (simp add: range_index_def upt_rec)
  have load: "load_csv w f = ([Exists f, ReadCsv f], Inr ?df)"
    using assms(1,2) by (rule load_csv_present)
  let ?s = "send_loop w t ?df (init_state ?df)"
  have third: "produce_raises w (Suc (Suc 0)) = None"
    using assms(8) by (simp add: numeral_2_eq_2)
  have f: "failed ?s = (if produce_raises w 1 = None then 0 else 1)"
    using assms(4-7) third
    by (simp add: df init_state_def row_step_failed row_raises_iff row_step_produce_calls)
  have su: "successful ?s = (if produce_raises w 1 = None then 3 else 2)"
    using assms(4-7) third
    by (simp add: df init_state_def row_step_successful row_step_produce_calls)
  have tot: "total_rows ?s = 3"
    by (simp add: send_loop_total_rows init_state_def length_range_index)
  have run: "send_to_kafka w ?df t b = (failed ?s = 0, Some (flush w ?s))"
    by (rule send_to_kafka_eq [OF assms(3)])
  show ?thesis
    using f su tot by (simp add: main_def load run summary_def flush_eq)
qed

theorem three_records_summary_witness:
  "\<exists>s. sent (main reject_world (ascii ''tx.csv'') (ascii ''localhost:9095'') (ascii ''transactions''))
          = Some (False, Some s)
       \<and> summary s = (3, 2, 1)
       \<and> exit_code (main reject_world (ascii ''tx.csv'') (ascii ''localhost:9095'')
            (ascii ''transactions'')) = 1"
proof -
  have rows: "read_csv reject_world (ascii ''tx.csv'')
      = Inr (range_index [first_row, second_row, third_row])"
    by (simp add: reject_world_def quiet_world_def three_rows_def)
  show ?thesis
    using three_records_summary [of reject_world "ascii ''tx.csv''"
        first_row second_row third_row "ascii ''localhost:9095''"
        "ascii ''transactions''", OF _ rows _ three_rows_encode]
    by (simp add: reject_world_def quiet_world_def)
qed

subsection \<open>C3: the encoding of a row\<close>



subsection \<open>C4: values the json encoder does not know\<close>




subsection \<open>C5: the exit code\<close>

text \<open>
  C5: the exit code is 0 exactly when the run is a full success, that is when the file
  was loaded, the producer was created and \<open>failed\<close> is 0 at the end, and 1 otherwise;
  \<open>send_to_kafka\<close> returns \<open>True\<close> exactly when it ran the loop and ended with \<open>failed = 0\<close>
  (it tests \<open>failed > 0\<close>; \<open>failed\<close> is never negative).
\<close>

theorem exit_code_iff_no_failure:
  "exit_code (main w f b t)
     = (if (\<exists>df s. snd (load_csv w f) = Inr df
              \<and> snd (send_to_kafka w df t b) = Some s \<and> failed s = 0)
        then 0 else 1)
   \<and> (fst (send_to_kafka w df t b)
        \<longleftrightarrow> (\<exists>s. snd (send_to_kafka w df t b) = Some s \<and> failed s = 0))"
proof
  have ret: "fst (send_to_kafka w d t b)
        \<longleftrightarrow> (\<exists>s. snd (send_to_kafka w d t b) = Some s \<and> failed s = 0)" for d
  proof (cases "new_producer w b")
    case None
    then show ?thesis by (simp add: send_to_kafka_eq flush_eq)
  next
    case (Some e)
    then show ?thesis by (simp add: send_to_kafka_no_producer)
  qed
  show "fst (send_to_kafka w df t b)
        \<longleftrightarrow> (\<exists>s. snd (send_to_kafka w df t b) = Some s \<and> failed s = 0)"
    by (rule ret)
  show "exit_code (main w f b t)
     = (if (\<exists>df s. snd (load_csv w f) = Inr df
              \<and> snd (send_to_kafka w df t b) = Some s \<and> failed s = 0)
        then 0 else 1)"
  proof (cases "load_csv w f")
    case (Pair fs r)
    show ?thesis
    proof (cases r)
      case (Inl e)
      with Pair show ?thesis by (cases e) (simp_all add: main_def)
    next
      case (Inr d)
      with Pair show ?thesis using ret [of d] by (simp add: main_def Let_def)
    qed
  qed
qed

theorem exit_code_iff_no_failure_witness:
  "exit_code (main quiet_world (ascii ''tx.csv'') (ascii ''localhost:9095'')
      (ascii ''transactions'')) = 0
   \<and> exit_code (main reject_world (ascii ''tx.csv'') (ascii ''localhost:9095'')
      (ascii ''transactions'')) = 1
   \<and> exit_code (main no_producer_world (ascii ''tx.csv'') (ascii ''localhost:9095'')
      (ascii ''transactions'')) = 1"
proof -
  let ?f = "ascii ''tx.csv''" and ?b = "ascii ''localhost:9095''" and ?t = "ascii ''transactions''"
  let ?df = "[(LInt 0, first_row), (LInt 1, second_row), (LInt 2, third_row)]"
  have load: "load_csv w ?f = ([Exists ?f, ReadCsv ?f], Inr ?df)"
    if "os_stat w ?f = Present" and "read_csv w ?f = Inr (range_index three_rows)" for w
    using that by (simp add: load_csv_present range_index_three_rows)
  have q: "load_csv quiet_world ?f = ([Exists ?f, ReadCsv ?f], Inr ?df)"
    by (rule load) (simp_all add: quiet_world_def)
  have r: "load_csv reject_world ?f = ([Exists ?f, ReadCsv ?f], Inr ?df)"
    by (rule load) (simp_all add: reject_world_def quiet_world_def)
  have n: "load_csv no_producer_world ?f = ([Exists ?f, ReadCsv ?f], Inr ?df)"
    by (rule load) (simp_all add: no_producer_world_def quiet_world_def)
  have fq: "failed (send_loop quiet_world ?t ?df (init_state ?df)) = 0"
    by (simp add: quiet_world_def row_step_failed row_raises_iff init_state_def
        three_rows_encode)
  have fr: "failed (send_loop reject_world ?t ?df (init_state ?df)) = 1"
    by (simp add: reject_world_def quiet_world_def row_step_failed row_raises_iff
        row_step_produce_calls init_state_def three_rows_encode)
  have sq: "send_to_kafka quiet_world ?df ?t ?b
      = (True, Some (flush quiet_world (send_loop quiet_world ?t ?df (init_state ?df))))"
    using send_to_kafka_eq [of quiet_world ?b ?df ?t] fq by (simp add: quiet_world_def)
  have sr: "send_to_kafka reject_world ?df ?t ?b
      = (False, Some (flush reject_world (send_loop reject_world ?t ?df (init_state ?df))))"
    using send_to_kafka_eq [of reject_world ?b ?df ?t] fr
    by (simp add: reject_world_def quiet_world_def)
  have sn: "send_to_kafka no_producer_world ?df ?t ?b = (False, None)"
    by (rule send_to_kafka_no_producer [of _ _ KafkaException])
       (simp add: no_producer_world_def quiet_world_def)
  have "exit_code (main quiet_world ?f ?b ?t) = 0"
    using exit_code_iff_no_failure [of quiet_world ?f ?b ?t ?df] q sq fq
    by (simp add: flush_eq)
  moreover have "exit_code (main reject_world ?f ?b ?t) = 1"
    using exit_code_iff_no_failure [of reject_world ?f ?b ?t ?df] r sr fr
    by (simp add: flush_eq)
  moreover have "exit_code (main no_producer_world ?f ?b ?t) = 1"
    using exit_code_iff_no_failure [of no_producer_world ?f ?b ?t ?df] n sn
    by simp
  ultimately show ?thesis by simp
qed

subsection \<open>C6: a row that raises\<close>



subsection \<open>C7: the final flush\<close>




subsection \<open>C8: the acknowledgment callback\<close>

text \<open>
  C8: the callback passed to \<open>produce\<close> is a no-op: for every error (or none) and message
  it returns \<open>None\<close> and leaves the state of the run as it is; and whatever the broker
  reports on delivery, the value \<open>send_to_kafka\<close> returns and the counters it ends with
  are the same.
\<close>

theorem ack_callback_is_noop:
  "ack_callback err msg s = (PyNone, s)
   \<and> fst (send_to_kafka (w\<lparr>delivery := d\<rparr>) df topic b) = fst (send_to_kafka w df topic b)
   \<and> map_option summary (snd (send_to_kafka (w\<lparr>delivery := d\<rparr>) df topic b))
       = map_option summary (snd (send_to_kafka w df topic b))"
proof (cases "new_producer w b")
  case None
  let ?s' = "send_loop (w\<lparr>delivery := d\<rparr>) topic df (init_state df)"
  let ?s = "send_loop w topic df (init_state df)"
  have "forget ?s' = forget ?s"
    by (rule send_loop_forget) simp
  then have "failed (forget ?s') = failed (forget ?s)"
    and "successful (forget ?s') = successful (forget ?s)"
    and "total_rows (forget ?s') = total_rows (forget ?s)"
    by simp_all
  then have eq: "failed ?s' = failed ?s" "successful ?s' = successful ?s"
    "total_rows ?s' = total_rows ?s"
    by (simp_all add: forget_fields)
  have np': "new_producer (w\<lparr>delivery := d\<rparr>) b = None"
    using None by simp
  show ?thesis
    using eq by (simp add: send_to_kafka_eq [OF None] send_to_kafka_eq [OF np'] summary_def
        flush_eq ack_callback_def)
next
  case (Some e)
  then show ?thesis
    by (simp add: send_to_kafka_def ack_callback_def)
qed

theorem ack_callback_is_noop_witness:
  "fst (send_to_kafka nack_world (range_index three_rows) (ascii ''transactions'')
          (ascii ''localhost:9095''))
     = fst (send_to_kafka quiet_world (range_index three_rows) (ascii ''transactions'')
          (ascii ''localhost:9095''))
   \<and> map_option summary (snd (send_to_kafka nack_world (range_index three_rows)
          (ascii ''transactions'') (ascii ''localhost:9095'')))
     = map_option summary (snd (send_to_kafka quiet_world (range_index three_rows)
          (ascii ''transactions'') (ascii ''localhost:9095'')))"
  using ack_callback_is_noop [where w = quiet_world
      and d = "\<lambda>k. if k = 1 then Some (ascii ''timed out'') else None"
      and df = "range_index three_rows" and topic = "ascii ''transactions''"
      and b = "ascii ''localhost:9095''"]
  by (simp add: nack_world_def)

subsection \<open>C9: a path that does not exist\<close>

text \<open>
  C9 says that for every path that does not exist \<open>load_csv\<close> raises
  \<open>FileNotFoundError\<close>, as its docstring does. The existence test itself can raise: for
  a name of 300 characters, which no file has, \<open>exists\<close> lets the \<open>OSError\<close> of \<open>os.stat\<close>
  through, and \<open>load_csv\<close> raises that \<open>OSError\<close>, not \<open>FileNotFoundError\<close>. Nothing is
  read, the run ends there and the script exits with 1, through the handler for unexpected
  errors. (Where \<open>exists\<close> answers \<open>False\<close> the claim holds: \<open>load_csv_absent\<close>.)
\<close>

theorem long_name_raises_oserror:
  "os_stat long_name_world long_name = NameTooLong
   \<and> load_csv long_name_world long_name = ([Exists long_name], Inl OSError)
   \<and> snd (load_csv long_name_world long_name) \<noteq> Inl FileNotFoundError
   \<and> main long_name_world long_name (ascii ''localhost:9095'') (ascii ''transactions'')
       = \<lparr>exit_code = 1, fs_calls = [Exists long_name], sent = None\<rparr>"
  by (simp add: long_name_world_def long_name_def load_csv_def path_exists_def main_def)

theorem long_name_raises_oserror_witness:
  "exit_code (main long_name_world long_name (ascii ''localhost:9095'')
      (ascii ''transactions'')) = 1"
  using long_name_raises_oserror by simp

subsection \<open>C10: the DataFrame after the run\<close>

text \<open>
  C10: \<open>send_to_kafka\<close> does not modify its input. No step of the run writes to the
  DataFrame (a turn of the loop, the loop, a flush), and the run ends with the DataFrame
  it was given.
\<close>

theorem frame_unchanged:
  assumes "new_producer w b = None"
  shows "frame (row_step w topic x s0) = frame s0
       \<and> frame (send_loop w topic rows s0) = frame s0
       \<and> frame (flush w s0) = frame s0
       \<and> (\<exists>r s. send_to_kafka w df topic b = (r, Some s) \<and> frame s = df)"
  using assms
  by (simp add: send_to_kafka_eq flush_eq send_loop_frame row_step_frame) (simp add: init_state_def)

theorem frame_unchanged_witness:
  "\<exists>r s. send_to_kafka reject_world (range_index three_rows) (ascii ''transactions'')
          (ascii ''localhost:9095'') = (r, Some s)
       \<and> frame s = range_index three_rows"
proof -
  have np: "new_producer reject_world (ascii ''localhost:9095'') = None"
    by (simp add: reject_world_def quiet_world_def)
  show ?thesis
    using frame_unchanged [OF np, where df = "range_index three_rows"
        and topic = "ascii ''transactions''"]
    by simp
qed

end
